theory Spec2Isabelle
  imports Main "HOL-Library.Word"
begin

unbundle bit_operations_syntax

section \<open>The declarations of shader\_types.h\<close>

text \<open>
  The header declares two plain structs for the Metal shading language:
  \<^verbatim>\<open>
  struct VertexIn
  {
      float3 position [[attribute(0)]];
      float4 color [[attribute(1)]];
  };

  struct VertexOut
  {
      float4 position [[position]];
      float4 color;
  };
  \<close>
  A declaration is data here: a struct is the list of its fields in the order they are
  written, each with its type, its name and the annotation in double brackets, if any.
\<close>

subsection \<open>Types and annotations\<close>

text \<open>
  The scalar kinds from which Metal builds its vector types, as far as they matter for
  telling a floating-point vector from an integer one. \<open>floatN\<close> is the vector of \<open>N\<close>
  32-bit floats.
\<close>

datatype scalar_type = Half | Float | SInt | UInt

datatype metal_type = Scalar scalar_type | Vector scalar_type nat

definition float3_type :: metal_type where
  "float3_type = Vector Float 3"

definition float4_type :: metal_type where
  "float4_type = Vector Float 4"

fun is_floating_point :: "scalar_type \<Rightarrow> bool" where
  "is_floating_point Half = True"
| "is_floating_point Float = True"
| "is_floating_point SInt = False"
| "is_floating_point UInt = False"

fun component_count :: "metal_type \<Rightarrow> nat" where
  "component_count (Scalar s) = 1"
| "component_count (Vector s n) = n"

fun is_float_vector :: "metal_type \<Rightarrow> nat \<Rightarrow> bool" where
  "is_float_vector (Scalar s) n = False"
| "is_float_vector (Vector s k) n = (is_floating_point s \<and> k = n)"

text \<open>The two annotations the header uses: \<open>[[attribute(n)]]\<close> and \<open>[[position]]\<close>.\<close>

datatype annotation = Attribute nat | Position

record field_decl =
  field_type :: metal_type
  field_name :: string
  field_annotation :: "annotation option"

record struct_decl =
  struct_name :: string
  struct_fields :: "field_decl list"
  struct_methods :: "string list"

definition VertexIn_decl :: struct_decl where
  "VertexIn_decl =
     \<lparr>struct_name = ''VertexIn'',
      struct_fields =
        [\<lparr>field_type = float3_type, field_name = ''position'',
           field_annotation = Some (Attribute 0)\<rparr>,
         \<lparr>field_type = float4_type, field_name = ''color'',
           field_annotation = Some (Attribute 1)\<rparr>],
      struct_methods = []\<rparr>"

definition VertexOut_decl :: struct_decl where
  "VertexOut_decl =
     \<lparr>struct_name = ''VertexOut'',
      struct_fields =
        [\<lparr>field_type = float4_type, field_name = ''position'',
           field_annotation = Some Position\<rparr>,
         \<lparr>field_type = float4_type, field_name = ''color'',
           field_annotation = None\<rparr>],
      struct_methods = []\<rparr>"

subsection \<open>Looking a declaration up\<close>

definition field_names :: "struct_decl \<Rightarrow> string list" where
  "field_names d = map field_name (struct_fields d)"

definition lookup_field :: "struct_decl \<Rightarrow> string \<Rightarrow> field_decl option" where
  "lookup_field d nm = find (\<lambda>f. field_name f = nm) (struct_fields d)"

definition field_type_of :: "struct_decl \<Rightarrow> string \<Rightarrow> metal_type option" where
  "field_type_of d nm = map_option field_type (lookup_field d nm)"

definition field_annotation_of :: "struct_decl \<Rightarrow> string \<Rightarrow> annotation option option" where
  "field_annotation_of d nm = map_option field_annotation (lookup_field d nm)"

fun index_of :: "'a list \<Rightarrow> 'a \<Rightarrow> nat option" where
  "index_of [] a = None"
| "index_of (x # xs) a = (if x = a then Some 0 else map_option Suc (index_of xs a))"

definition field_index :: "struct_decl \<Rightarrow> string \<Rightarrow> nat option" where
  "field_index d nm = index_of (field_names d) nm"

text \<open>The field a vertex attribute index is bound to: the one annotated \<open>[[attribute(n)]]\<close>.\<close>

definition attribute_binding :: "struct_decl \<Rightarrow> nat \<Rightarrow> string option" where
  "attribute_binding d n =
     map_option field_name
       (find (\<lambda>f. field_annotation f = Some (Attribute n)) (struct_fields d))"

fun attribute_indices :: "field_decl list \<Rightarrow> nat list" where
  "attribute_indices [] = []"
| "attribute_indices (f # fs) =
     (case field_annotation f of
        Some (Attribute n) \<Rightarrow> n # attribute_indices fs
      | _ \<Rightarrow> attribute_indices fs)"

definition position_fields :: "struct_decl \<Rightarrow> string list" where
  "position_fields d =
     map field_name (filter (\<lambda>f. field_annotation f = Some Position) (struct_fields d))"

text \<open>A field without any annotation is an ordinary varying of the stage's output.\<close>

definition plain_fields :: "struct_decl \<Rightarrow> string list" where
  "plain_fields d =
     map field_name (filter (\<lambda>f. field_annotation f = None) (struct_fields d))"

subsection \<open>Values\<close>

text \<open>
  A \<open>float\<close> is its IEEE-754 binary32 bit pattern, so that equality of two values is
  bit-identity. No arithmetic on floats is modelled: the header has none.
\<close>

type_synonym float = "32 word"
type_synonym float3 = "float \<times> float \<times> float"
type_synonym float4 = "float \<times> float \<times> float \<times> float"

record VertexIn =
  position :: float3
  color :: float4

record VertexOut =
  position :: float4
  color :: float4

fun float3_components :: "float3 \<Rightarrow> float list" where
  "float3_components (x, y, z) = [x, y, z]"

fun float4_components :: "float4 \<Rightarrow> float list" where
  "float4_components (x, y, z, w) = [x, y, z, w]"

text \<open>The fields of a record instance by name, in declaration order.\<close>

definition VertexIn_members :: "VertexIn \<Rightarrow> (string \<times> float list) list" where
  "VertexIn_members v =
     [(''position'', float3_components (VertexIn.position v)),
      (''color'', float4_components (VertexIn.color v))]"

definition VertexOut_members :: "VertexOut \<Rightarrow> (string \<times> float list) list" where
  "VertexOut_members v =
     [(''position'', float4_components (VertexOut.position v)),
      (''color'', float4_components (VertexOut.color v))]"

fun has_type :: "float list \<Rightarrow> metal_type \<Rightarrow> bool" where
  "has_type xs (Scalar s) = (s = Float \<and> length xs = 1)"
| "has_type xs (Vector s n) = (s = Float \<and> length xs = n)"

fun members_match :: "(string \<times> float list) list \<Rightarrow> field_decl list \<Rightarrow> bool" where
  "members_match [] [] = True"
| "members_match ((nm, xs) # ms) (f # fs) =
     (nm = field_name f \<and> has_type xs (field_type f) \<and> members_match ms fs)"
| "members_match _ _ = False"

text \<open>
  What the vertex fetch hands to the stage for attribute index \<open>n\<close> of a record: the value
  of the field that the declaration binds to \<open>n\<close>.
\<close>

definition resolve_attribute :: "VertexIn \<Rightarrow> nat \<Rightarrow> float list option" where
  "resolve_attribute v n =
     (case attribute_binding VertexIn_decl n of
        None \<Rightarrow> None
      | Some nm \<Rightarrow> map_of (VertexIn_members v) nm)"

definition field_is_float_vector :: "struct_decl \<Rightarrow> string \<Rightarrow> nat \<Rightarrow> bool" where
  "field_is_float_vector d nm n =
     (case field_type_of d nm of None \<Rightarrow> False | Some t \<Rightarrow> is_float_vector t n)"

subsection \<open>Building a record and reading its fields\<close>

text \<open>
  Neither struct declares a constructor, so a record is built by aggregate initialisation,
  which takes the initialisers in declaration order: \<open>VertexIn{p, c}\<close>.
\<close>

definition make_VertexIn :: "float3 \<Rightarrow> float4 \<Rightarrow> VertexIn" where
  "make_VertexIn p c = \<lparr>VertexIn.position = p, color = c\<rparr>"

definition make_VertexOut :: "float4 \<Rightarrow> float4 \<Rightarrow> VertexOut" where
  "make_VertexOut q d = \<lparr>VertexOut.position = q, color = d\<rparr>"

text \<open>
  Reading a field, with the record threaded through as state: the access \<open>v.position\<close>
  returns the field's value together with the record as it is afterwards. There is no
  error branch: the access checks nothing.
\<close>

definition read_position :: "VertexIn \<Rightarrow> float3 \<times> VertexIn" where
  "read_position v = (VertexIn.position v, v)"

definition read_color :: "VertexIn \<Rightarrow> float4 \<times> VertexIn" where
  "read_color v = (VertexIn.color v, v)"

subsection \<open>Struct layout\<close>

text \<open>
  The header does not say how many bytes a \<open>float3\<close> or a \<open>float4\<close> takes or how it is
  aligned: that is the toolchain's and comes with the \<^verbatim>\<open>metal_stdlib\<close> header. It is a
  parameter of the layout; Metal's own values for it are given below. What the language fixes for a struct is the rule: fields are laid out
  in declaration order, each at the next offset that its alignment allows.
\<close>

record abi =
  size_of :: "metal_type \<Rightarrow> nat"
  align_of :: "metal_type \<Rightarrow> nat"

definition round_up :: "nat \<Rightarrow> nat \<Rightarrow> nat" where
  "round_up n a = n + (a - n mod a) mod a"

fun layout_fields :: "abi \<Rightarrow> nat \<Rightarrow> field_decl list \<Rightarrow> (string \<times> nat) list" where
  "layout_fields A off [] = []"
| "layout_fields A off (f # fs) =
     (let start = round_up off (align_of A (field_type f))
      in (field_name f, start) # layout_fields A (start + size_of A (field_type f)) fs)"

definition field_offset :: "abi \<Rightarrow> struct_decl \<Rightarrow> string \<Rightarrow> nat option" where
  "field_offset A d nm = map_of (layout_fields A 0 (struct_fields d)) nm"

text \<open>
  The size of a struct: its fields end where the last one ends, and the whole is rounded
  up to the struct's alignment, the largest alignment among its fields.
\<close>

fun layout_end :: "abi \<Rightarrow> nat \<Rightarrow> field_decl list \<Rightarrow> nat" where
  "layout_end A off [] = off"
| "layout_end A off (f # fs) =
     layout_end A (round_up off (align_of A (field_type f)) + size_of A (field_type f)) fs"







subsection \<open>A vertex buffer\<close>

text \<open>
  Modelled from the spec: the host code that fills the vertex buffer and the vertex fetch
  that reads it back are not in the header. The spec (sections 3, 6 and 8) has each field at
  a fixed byte offset of the element, a position of three floats and a color of four,
  four bytes to a float. A buffer is a list of bytes; a float is stored as the four
  bytes of its bit pattern, lowest byte first. An access that does not fit the buffer has
  no defined result in the source; here it is \<open>None\<close>.
\<close>

type_synonym byte = "8 word"

definition float_bytes :: "float \<Rightarrow> byte list" where
  "float_bytes w =
     [ucast w, ucast (drop_bit 8 w), ucast (drop_bit 16 w), ucast (drop_bit 24 w)]"

definition bytes_float :: "byte \<Rightarrow> byte \<Rightarrow> byte \<Rightarrow> byte \<Rightarrow> float" where
  "bytes_float b0 b1 b2 b3 =
     ucast b0 OR push_bit 8 (ucast b1) OR push_bit 16 (ucast b2) OR push_bit 24 (ucast b3)"

definition encode_floats :: "float list \<Rightarrow> byte list" where
  "encode_floats xs = concat (map float_bytes xs)"

fun decode_floats :: "byte list \<Rightarrow> float list option" where
  "decode_floats [] = Some []"
| "decode_floats (b0 # b1 # b2 # b3 # bs) =
     map_option (\<lambda>xs. bytes_float b0 b1 b2 b3 # xs) (decode_floats bs)"
| "decode_floats _ = None"

definition write_bytes :: "nat \<Rightarrow> byte list \<Rightarrow> byte list \<Rightarrow> byte list option" where
  "write_bytes off bs buf =
     (if off + length bs \<le> length buf
      then Some (take off buf @ bs @ drop (off + length bs) buf)
      else None)"

definition read_bytes :: "nat \<Rightarrow> nat \<Rightarrow> byte list \<Rightarrow> byte list option" where
  "read_bytes off n buf =
     (if off + n \<le> length buf then Some (take n (drop off buf)) else None)"

definition read_floats :: "nat \<Rightarrow> nat \<Rightarrow> byte list \<Rightarrow> float list option" where
  "read_floats off n buf = Option.bind (read_bytes off (4 * n) buf) decode_floats"

definition float3_of :: "float list \<Rightarrow> float3 option" where
  "float3_of xs = (case xs of [x, y, z] \<Rightarrow> Some (x, y, z) | _ \<Rightarrow> None)"

definition float4_of :: "float list \<Rightarrow> float4 option" where
  "float4_of xs = (case xs of [x, y, z, w] \<Rightarrow> Some (x, y, z, w) | _ \<Rightarrow> None)"

text \<open>
  Modelled from the spec: the host-side writer (not in the header). It stores the element
  that starts at byte \<open>base\<close>: each field goes to its offset in the layout of \<open>VertexIn\<close>.
\<close>

definition write_VertexIn :: "abi \<Rightarrow> nat \<Rightarrow> VertexIn \<Rightarrow> byte list \<Rightarrow> byte list option" where
  "write_VertexIn A base v buf =
     (case (field_offset A VertexIn_decl ''position'', field_offset A VertexIn_decl ''color'') of
        (Some po, Some co) \<Rightarrow>
          (case write_bytes (base + po)
                  (encode_floats (float3_components (VertexIn.position v))) buf of
             None \<Rightarrow> None
           | Some buf1 \<Rightarrow>
               write_bytes (base + co)
                 (encode_floats (float4_components (VertexIn.color v))) buf1)
      | _ \<Rightarrow> None)"

text \<open>
  Modelled from the spec: the read through the same layout (the vertex fetch, not in the
  header). It loads three floats at the offset of \<open>position\<close> and four at the offset of
  \<open>color\<close>.
\<close>

definition read_VertexIn :: "abi \<Rightarrow> nat \<Rightarrow> byte list \<Rightarrow> VertexIn option" where
  "read_VertexIn A base buf =
     (case (field_offset A VertexIn_decl ''position'', field_offset A VertexIn_decl ''color'') of
        (Some po, Some co) \<Rightarrow>
          (case (Option.bind (read_floats (base + po) 3 buf) float3_of,
                 Option.bind (read_floats (base + co) 4 buf) float4_of) of
             (Some p, Some c) \<Rightarrow> Some \<lparr>VertexIn.position = p, color = c\<rparr>
           | _ \<Rightarrow> None)
      | _ \<Rightarrow> None)"

text \<open>
  Modelled from the spec: the sizes of section 8, three times four bytes for a \<open>float3\<close>
  and four times four for a \<open>float4\<close>, each aligned as a single float. A sample of the
  parameter, not a fact of the header.
\<close>

definition packed_abi :: abi where
  "packed_abi = \<lparr>size_of = (\<lambda>t. 4 * component_count t), align_of = (\<lambda>t. 4)\<rparr>"

subsection \<open>An identity-like vertex stage\<close>

text \<open>
  Modelled from the spec: the vertex function is not in the header, and the spec leaves
  the real transform open. Its scenario in section 8 names one stage, "identity-like",
  that appends \<open>w = 1\<close> to the position and passes the color on. The constants are the
  bit patterns of \<open>0.0f\<close> and \<open>1.0f\<close>.
\<close>

definition float_zero :: float where
  "float_zero = 0x00000000"

definition float_one :: float where
  "float_one = 0x3F800000"

definition identity_vertex_stage :: "VertexIn \<Rightarrow> VertexOut" where
  "identity_vertex_stage v =
     (case VertexIn.position v of
        (x, y, z) \<Rightarrow> \<lparr>VertexOut.position = (x, y, z, float_one), color = VertexIn.color v\<rparr>)"

section \<open>The records agree with their declarations\<close>

lemma float3_components_length: "length (float3_components p) = 3"
  by (cases p) simp

lemma float4_components_length: "length (float4_components c) = 4"
  by (cases c) simp

lemma VertexIn_members_match:
  "members_match (VertexIn_members v) (struct_fields VertexIn_decl)"
  by (simp add: VertexIn_members_def VertexIn_decl_def float3_type_def float4_type_def
      float3_components_length float4_components_length)

lemma VertexOut_members_match:
  "members_match (VertexOut_members v) (struct_fields VertexOut_decl)"
  by (simp add: VertexOut_members_def VertexOut_decl_def float4_type_def
      float4_components_length)

lemma attribute_binding_VertexIn:
  "attribute_binding VertexIn_decl n =
     (if n = 0 then Some ''position'' else if n = 1 then Some ''color'' else None)"
  by (simp add: attribute_binding_def VertexIn_decl_def)

section \<open>Attribute bindings\<close>

text \<open>
  C1. In \<open>VertexIn\<close>, attribute index 0 is bound to \<open>position\<close> and attribute index 1 to
  \<open>color\<close>, and these are the only indices bound. For every record instance, resolving
  index 0 gives the three components of its position, resolving index 1 the four
  components of its color, and no other index resolves.
\<close>

theorem VertexIn_attribute_bindings:
  "attribute_binding VertexIn_decl 0 = Some ''position'' \<and>
   attribute_binding VertexIn_decl 1 = Some ''color'' \<and>
   dom (attribute_binding VertexIn_decl) = {0, 1} \<and>
   resolve_attribute v 0 = Some (float3_components (VertexIn.position v)) \<and>
   resolve_attribute v 1 = Some (float4_components (VertexIn.color v)) \<and>
   dom (resolve_attribute v) = {0, 1}"
proof -
  have b: "dom (attribute_binding VertexIn_decl) = {0, 1}"
    by (auto simp: attribute_binding_VertexIn dom_def split: if_splits)
  have r0: "resolve_attribute v 0 = Some (float3_components (VertexIn.position v))"
    by (simp add: resolve_attribute_def attribute_binding_VertexIn VertexIn_members_def)
  have r1: "resolve_attribute v 1 = Some (float4_components (VertexIn.color v))"
    by (simp add: resolve_attribute_def attribute_binding_VertexIn VertexIn_members_def)
  have r: "dom (resolve_attribute v) = {0, 1}"
    by (auto simp: resolve_attribute_def attribute_binding_VertexIn VertexIn_members_def
        dom_def split: if_splits)
  show ?thesis
    using b r0 r1 r by (simp add: attribute_binding_VertexIn)
qed

section \<open>Field types\<close>

text \<open>
  C3. \<open>VertexIn.position\<close> is a vector of three floats and \<open>VertexIn.color\<close> a vector of
  four; both fields of \<open>VertexOut\<close> are vectors of four floats, and its \<open>position\<close> is the
  field marked \<open>[[position]]\<close>, the clip-space coordinate the rasterizer takes. Every
  record instance has that many components in each field.
\<close>

theorem field_types:
  "field_type_of VertexIn_decl ''position'' = Some (Vector Float 3) \<and>
   field_type_of VertexIn_decl ''color'' = Some (Vector Float 4) \<and>
   field_type_of VertexOut_decl ''position'' = Some (Vector Float 4) \<and>
   field_type_of VertexOut_decl ''color'' = Some (Vector Float 4) \<and>
   field_is_float_vector VertexIn_decl ''position'' 3 \<and>
   field_is_float_vector VertexIn_decl ''color'' 4 \<and>
   field_is_float_vector VertexOut_decl ''position'' 4 \<and>
   field_is_float_vector VertexOut_decl ''color'' 4 \<and>
   field_annotation_of VertexOut_decl ''position'' = Some (Some Position) \<and>
   length (float3_components (VertexIn.position vi)) = 3 \<and>
   length (float4_components (VertexIn.color vi)) = 4 \<and>
   length (float4_components (VertexOut.position vo)) = 4 \<and>
   length (float4_components (VertexOut.color vo)) = 4"
  by (simp add: field_is_float_vector_def field_type_of_def field_annotation_of_def
      lookup_field_def VertexIn_decl_def VertexOut_decl_def float3_type_def float4_type_def
      float3_components_length float4_components_length)

section \<open>Annotations\<close>

text \<open>
  C10. Both fields of \<open>VertexIn\<close> carry an attribute annotation, \<open>[[attribute(0)]]\<close> and
  \<open>[[attribute(1)]]\<close>, and \<open>VertexOut\<close> has no attribute index at all. The \<open>[[position]]\<close>
  annotation is on \<open>VertexOut.position\<close> and on no other field of either struct.
  \<open>VertexOut.color\<close> has no annotation: it is the one plain field, an ordinary varying.
\<close>

theorem annotations:
  "map field_annotation (struct_fields VertexIn_decl) = [Some (Attribute 0), Some (Attribute 1)] \<and>
   map field_annotation (struct_fields VertexOut_decl) = [Some Position, None] \<and>
   attribute_indices (struct_fields VertexIn_decl) = [0, 1] \<and>
   attribute_indices (struct_fields VertexOut_decl) = [] \<and>
   position_fields VertexIn_decl = [] \<and>
   position_fields VertexOut_decl = [''position''] \<and>
   plain_fields VertexIn_decl = [] \<and>
   plain_fields VertexOut_decl = [''color'']"
  by (simp add: VertexIn_decl_def VertexOut_decl_def position_fields_def plain_fields_def)

section \<open>Construction and field access\<close>

text \<open>
  C9. Building a \<open>VertexIn\<close> from a 3-vector \<open>p\<close> and a 4-vector \<open>c\<close> and projecting its
  fields gives back \<open>p\<close> and \<open>c\<close>; building a \<open>VertexOut\<close> from two 4-vectors \<open>q\<close> and \<open>d\<close>
  and projecting gives back \<open>q\<close> and \<open>d\<close>.
\<close>

theorem make_project:
  "VertexIn.position (make_VertexIn p c) = p \<and>
   VertexIn.color (make_VertexIn p c) = c \<and>
   VertexOut.position (make_VertexOut q d) = q \<and>
   VertexOut.color (make_VertexOut q d) = d"
  by (simp add: make_VertexIn_def make_VertexOut_def)

text \<open>
  C8. Reading \<open>position\<close> or \<open>color\<close> of a \<open>VertexIn\<close> returns the stored value, whatever
  its bits are, and leaves the record as it was, both fields included. The struct
  declares no member function: field access is all there is.
\<close>

theorem read_is_pure:
  "fst (read_position v) = VertexIn.position v \<and>
   fst (read_color v) = VertexIn.color v \<and>
   snd (read_position v) = v \<and>
   snd (read_color v) = v \<and>
   VertexIn.position (snd (read_color v)) = VertexIn.position v \<and>
   VertexIn.color (snd (read_position v)) = VertexIn.color v \<and>
   struct_methods VertexIn_decl = []"
  by (simp add: read_position_def read_color_def VertexIn_decl_def)

section \<open>Field order\<close>

lemma round_up_ge: "n \<le> round_up n a"
  by (simp add: round_up_def)

lemma round_up_zero: "round_up 0 a = 0"
  by (simp add: round_up_def)

lemma field_offset_VertexIn:
  "field_offset A VertexIn_decl nm =
     (if nm = ''position'' then Some 0
      else if nm = ''color''
        then Some (round_up (size_of A float3_type) (align_of A float4_type))
      else None)"
  by (simp add: field_offset_def VertexIn_decl_def round_up_zero Let_def)

lemma field_offset_VertexOut:
  "field_offset A VertexOut_decl nm =
     (if nm = ''position'' then Some 0
      else if nm = ''color''
        then Some (round_up (size_of A float4_type) (align_of A float4_type))
      else None)"
  by (simp add: field_offset_def VertexOut_decl_def round_up_zero Let_def)

text \<open>
  C7. In both structs \<open>position\<close> is the first declared field and \<open>color\<close> the second.
  So, whatever sizes and alignments the vector types have, \<open>position\<close> starts the record
  and \<open>color\<close> starts at or after the end of the position data: position data comes
  before color data in each element.
\<close>

theorem field_order:
  "field_names VertexIn_decl = [''position'', ''color''] \<and>
   field_names VertexOut_decl = [''position'', ''color''] \<and>
   field_index VertexIn_decl ''position'' = Some 0 \<and>
   field_index VertexIn_decl ''color'' = Some 1 \<and>
   field_index VertexOut_decl ''position'' = Some 0 \<and>
   field_index VertexOut_decl ''color'' = Some 1 \<and>
   field_offset A VertexIn_decl ''position'' = Some 0 \<and>
   (\<exists>off. field_offset A VertexIn_decl ''color'' = Some off \<and> size_of A float3_type \<le> off) \<and>
   field_offset A VertexOut_decl ''position'' = Some 0 \<and>
   (\<exists>off. field_offset A VertexOut_decl ''color'' = Some off \<and> size_of A float4_type \<le> off)"
proof -
  have names: "field_names VertexIn_decl = [''position'', ''color'']"
    "field_names VertexOut_decl = [''position'', ''color'']"
    by (simp_all add: field_names_def VertexIn_decl_def VertexOut_decl_def)
  have idx: "field_index VertexIn_decl ''position'' = Some 0"
    "field_index VertexIn_decl ''color'' = Some 1"
    "field_index VertexOut_decl ''position'' = Some 0"
    "field_index VertexOut_decl ''color'' = Some 1"
    by (simp_all add: field_index_def names)
  have offs: "field_offset A VertexIn_decl ''position'' = Some 0"
    "field_offset A VertexOut_decl ''position'' = Some 0"
    by (simp_all add: field_offset_VertexIn field_offset_VertexOut)
  have col_in: "\<exists>off. field_offset A VertexIn_decl ''color'' = Some off \<and>
      size_of A float3_type \<le> off"
    by (simp add: field_offset_VertexIn round_up_ge)
  have col_out: "\<exists>off. field_offset A VertexOut_decl ''color'' = Some off \<and>
      size_of A float4_type \<le> off"
    by (simp add: field_offset_VertexOut round_up_ge)
  from names idx offs col_in col_out show ?thesis
    by simp
qed

section \<open>Record sizes\<close>

lemma layout_end_snoc:
  "layout_end A off (fs @ [f]) =
     round_up (layout_end A off fs) (align_of A (field_type f)) + size_of A (field_type f)"
  by (induction fs arbitrary: off) simp_all

text \<open>The two layout functions agree: a field starts at the aligned end of those before it.\<close>

lemma layout_fields_snoc:
  "layout_fields A off (fs @ [f]) =
     layout_fields A off fs @
       [(field_name f, round_up (layout_end A off fs) (align_of A (field_type f)))]"
  by (induction fs arbitrary: off) (simp_all add: Let_def)







section \<open>Buffer round trip\<close>

lemma bytes_float_bytes:
  "bytes_float (ucast w) (ucast (drop_bit 8 w)) (ucast (drop_bit 16 w)) (ucast (drop_bit 24 w)) = w"
  unfolding bytes_float_def
proof (rule bit_word_eqI)
  fix n
  assume "n < LENGTH(32)"
  then show "bit (ucast (ucast w :: byte) OR push_bit 8 (ucast (ucast (drop_bit 8 w) :: byte)) OR
      push_bit 16 (ucast (ucast (drop_bit 16 w) :: byte)) OR
      push_bit 24 (ucast (ucast (drop_bit 24 w) :: byte)) :: float) n = bit w n"
    by (cases "n < 8"; cases "n < 16"; cases "n < 24") (auto simp: bit_simps not_less)
qed

lemma length_encode_floats: "length (encode_floats xs) = 4 * length xs"
  by (induction xs) (simp_all add: encode_floats_def float_bytes_def)

lemma decode_encode_floats: "decode_floats (encode_floats xs) = Some xs"
  by (induction xs) (simp_all add: encode_floats_def float_bytes_def bytes_float_bytes)

lemma length_write_bytes: "write_bytes off bs buf = Some buf' \<Longrightarrow> length buf' = length buf"
  by (auto simp: write_bytes_def split: if_splits)

lemma read_write_same:
  "write_bytes off bs buf = Some buf' \<Longrightarrow> read_bytes off (length bs) buf' = Some bs"
  by (auto simp: write_bytes_def read_bytes_def split: if_splits)

lemma read_write_before:
  "write_bytes off bs buf = Some buf' \<Longrightarrow> off' + n \<le> off \<Longrightarrow>
   read_bytes off' n buf' = read_bytes off' n buf"
  by (auto simp: write_bytes_def read_bytes_def drop_take min_def split: if_splits)

text \<open>
  C4. Take any sizes and alignments under which the slot of a \<open>float3\<close> holds its three
  floats, and a buffer with room for the element at \<open>base\<close>. Writing a record through the
  layout of \<open>VertexIn\<close> succeeds, and reading the element back through the same layout
  returns the record written: the same bits in \<open>position\<close> and in \<open>color\<close>.
\<close>

theorem write_read_VertexIn:
  assumes slot: "12 \<le> size_of A float3_type"
    and color_at: "field_offset A VertexIn_decl ''color'' = Some co"
    and room: "base + co + 16 \<le> length buf"
  shows "\<exists>buf'. write_VertexIn A base v buf = Some buf' \<and> length buf' = length buf \<and>
           read_VertexIn A base buf' = Some v"
proof -
  let ?pb = "encode_floats (float3_components (VertexIn.position v))"
  let ?cb = "encode_floats (float4_components (VertexIn.color v))"
  have lp: "length ?pb = 12" and lc: "length ?cb = 16"
    by (simp_all add: length_encode_floats float3_components_length float4_components_length)
  have co_def: "co = round_up (size_of A float3_type) (align_of A float4_type)"
    using color_at by (simp add: field_offset_VertexIn)
  have co: "12 \<le> co"
    using slot round_up_ge [of "size_of A float3_type" "align_of A float4_type"]
    unfolding co_def by linarith
  from room co lp obtain buf1 where w1: "write_bytes (base + 0) ?pb buf = Some buf1"
    by (auto simp: write_bytes_def)
  have l1: "length buf1 = length buf"
    using w1 by (rule length_write_bytes)
  from room lc l1 obtain buf2 where w2: "write_bytes (base + co) ?cb buf1 = Some buf2"
    by (auto simp: write_bytes_def)
  have l2: "length buf2 = length buf"
    using length_write_bytes [OF w2] l1 by simp
  have "read_bytes (base + 0) 12 buf2 = read_bytes (base + 0) 12 buf1"
    using w2 co by (intro read_write_before) auto
  also have "\<dots> = Some ?pb"
    using read_write_same [OF w1] lp by simp
  finally have rp: "read_bytes (base + 0) 12 buf2 = Some ?pb" .
  have rc: "read_bytes (base + co) 16 buf2 = Some ?cb"
    using read_write_same [OF w2] lc by simp
  have fp: "Option.bind (read_floats (base + 0) 3 buf2) float3_of = Some (VertexIn.position v)"
    using rp by (cases "VertexIn.position v")
      (simp add: read_floats_def decode_encode_floats float3_of_def)
  have fc: "Option.bind (read_floats (base + co) 4 buf2) float4_of = Some (VertexIn.color v)"
    using rc by (cases "VertexIn.color v")
      (simp add: read_floats_def decode_encode_floats float4_of_def)
  have "write_VertexIn A base v buf = Some buf2"
    using w1 w2 by (simp add: write_VertexIn_def field_offset_VertexIn co_def)
  moreover have "read_VertexIn A base buf2 = Some v"
    using fp fc by (simp add: read_VertexIn_def field_offset_VertexIn co_def)
  ultimately show ?thesis
    using l2 by simp
qed

text \<open>
  The round trip at the second element of a buffer of two 28-byte elements, with the
  sizes of the spec: position \<open>(0, 0, 0)\<close> and color \<open>(1, 0, 0, 1)\<close>.
\<close>

theorem write_read_VertexIn_witness:
  "12 \<le> size_of packed_abi float3_type \<and>
   field_offset packed_abi VertexIn_decl ''color'' = Some 12 \<and>
   28 + 12 + 16 \<le> length (replicate 56 (0 :: byte)) \<and>
   (\<exists>buf'. write_VertexIn packed_abi 28
        \<lparr>VertexIn.position = (float_zero, float_zero, float_zero),
         color = (float_one, float_zero, float_zero, float_one)\<rparr>
        (replicate 56 0) = Some buf' \<and>
      length buf' = length (replicate 56 (0 :: byte)) \<and>
      read_VertexIn packed_abi 28 buf' =
        Some \<lparr>VertexIn.position = (float_zero, float_zero, float_zero),
              color = (float_one, float_zero, float_zero, float_one)\<rparr>)"
proof -
  have slot: "12 \<le> size_of packed_abi float3_type"
    by (simp add: packed_abi_def float3_type_def)
  have color_at: "field_offset packed_abi VertexIn_decl ''color'' = Some 12"
    by (simp add: field_offset_VertexIn packed_abi_def float3_type_def float4_type_def
        round_up_def)
  have room: "28 + 12 + 16 \<le> length (replicate 56 (0 :: byte))"
    by simp
  from write_read_VertexIn [OF slot color_at room] slot color_at room
  show ?thesis
    by blast
qed

section \<open>The identity-like stage\<close>

text \<open>
  C5. The identity-like stage, which appends \<open>w = 1\<close> to the position, takes the input
  record with position \<open>(0, 0, 0)\<close> and color \<open>(1, 0, 0, 1)\<close> to the output record with
  position \<open>(0, 0, 0, 1)\<close> and color \<open>(1, 0, 0, 1)\<close>.
\<close>

theorem identity_stage_scenario:
  "identity_vertex_stage
     \<lparr>VertexIn.position = (float_zero, float_zero, float_zero),
      color = (float_one, float_zero, float_zero, float_one)\<rparr> =
   \<lparr>VertexOut.position = (float_zero, float_zero, float_zero, float_one),
    color = (float_one, float_zero, float_zero, float_one)\<rparr>"
  by (simp add: identity_vertex_stage_def)

end
